theory Spec2Isabelle
  imports Main "HOL-Library.Word"
begin

section \<open>Faults\<close>

text \<open>
  What a call can end in besides its result: a contract check that fired, a use of
  \<^verbatim>\<open>m_Storage\<close> as a \<^verbatim>\<open>T\<close> while no \<^verbatim>\<open>T\<close> is constructed there, or a read
  through a reference to an object that was destroyed (the last two are undefined
  behaviour in the source, values of their own in the model).
\<close>

datatype fault = ContractViolation | UninitializedStorage | DanglingReference

section \<open>Status codes (StatusCode.h)\<close>

text \<open>
  \<^verbatim>\<open>enum class StatusCode : uint32_t\<close>: a scoped enumeration with a fixed underlying
  type, so every 32-bit value is a value of the type; sixteen of them are named.
\<close>

type_synonym StatusCode = "32 word"

definition OK :: StatusCode where "OK = 0"
definition CANCELLED :: StatusCode where "CANCELLED = 1"
definition INVALID_ARGUMENT :: StatusCode where "INVALID_ARGUMENT = 2"
definition NOT_FOUND :: StatusCode where "NOT_FOUND = 3"
definition ALREADY_EXISTS :: StatusCode where "ALREADY_EXISTS = 4"
definition PERMISSION_DENIED :: StatusCode where "PERMISSION_DENIED = 5"
definition UNAUTHENTICATED :: StatusCode where "UNAUTHENTICATED = 6"
definition OUT_OF_RANGE :: StatusCode where "OUT_OF_RANGE = 7"
definition DEADLINE_EXCEEDED :: StatusCode where "DEADLINE_EXCEEDED = 8"
definition RESOURCE_EXHAUSTED :: StatusCode where "RESOURCE_EXHAUSTED = 9"
definition FAILED_PRECONDITION :: StatusCode where "FAILED_PRECONDITION = 10"
definition ABORTED :: StatusCode where "ABORTED = 11"
definition UNIMPLEMENTED :: StatusCode where "UNIMPLEMENTED = 12"
definition INTERNAL :: StatusCode where "INTERNAL = 13"
definition UNAVAILABLE :: StatusCode where "UNAVAILABLE = 14"
definition DATA_LOSS :: StatusCode where "DATA_LOSS = 15"

text \<open>
  A reference as a function hands it to its caller: to an object that is alive, or to one
  whose lifetime has ended; in both cases with the value the object has or had.
\<close>

datatype 'a cref = Refers 'a | Dangling 'a

text \<open>
  \<^verbatim>\<open>return "Ok";\<close> in a function that returns \<^verbatim>\<open>const std::string&\<close>: a temporary
  \<^verbatim>\<open>std::string\<close> is built from the literal, the returned reference is bound to it, and
  the temporary is destroyed at the end of the return statement.
\<close>

definition return_temporary :: "'a \<Rightarrow> 'a cref" where
  "return_temporary t = Dangling t"

text \<open>
  \<^verbatim>\<open>const std::string& StatusCodeToString(StatusCode code)\<close>: the \<^verbatim>\<open>switch\<close>, case by
  case, with its default; every case returns a literal.
\<close>

definition StatusCodeToString :: "StatusCode \<Rightarrow> string cref" where
  "StatusCodeToString code =
     (if code = OK then return_temporary ''Ok''
      else if code = CANCELLED then return_temporary ''Cancelled''
      else if code = INVALID_ARGUMENT then return_temporary ''Invalid Argument''
      else if code = NOT_FOUND then return_temporary ''Not Found''
      else if code = ALREADY_EXISTS then return_temporary ''Already Exists''
      else if code = PERMISSION_DENIED then return_temporary ''Permission Denied''
      else if code = UNAUTHENTICATED then return_temporary ''Unauthenticated''
      else if code = OUT_OF_RANGE then return_temporary ''Out of Range''
      else if code = DEADLINE_EXCEEDED then return_temporary ''Deadline Exceeded''
      else if code = RESOURCE_EXHAUSTED then return_temporary ''Resource Exhausted''
      else if code = FAILED_PRECONDITION then return_temporary ''Failed Precondition''
      else if code = ABORTED then return_temporary ''Aborted''
      else if code = UNIMPLEMENTED then return_temporary ''Unimplemented''
      else if code = INTERNAL then return_temporary ''Internal''
      else if code = UNAVAILABLE then return_temporary ''Unavailable''
      else if code = DATA_LOSS then return_temporary ''Data Loss''
      else return_temporary ''Unknown'')"

section \<open>Status (Status.h)\<close>

record Status =
  m_Code :: StatusCode
  m_Message :: string

text \<open>\<^verbatim>\<open>Status() : m_Code(StatusCode::OK) {}\<close>; the message is default-constructed.\<close>

definition Status_default :: Status where
  "Status_default = \<lparr>m_Code = OK, m_Message = []\<rparr>"

text \<open>\<^verbatim>\<open>Status(StatusCode code, std::string message)\<close>.\<close>

definition Status_ctor :: "StatusCode \<Rightarrow> string \<Rightarrow> Status" where
  "Status_ctor c message = \<lparr>m_Code = c, m_Message = message\<rparr>"

text \<open>\<^verbatim>\<open>bool ok() const { return m_Code == StatusCode::OK; }\<close>\<close>

definition Status_ok :: "Status \<Rightarrow> bool" where
  "Status_ok s = (m_Code s = OK)"

definition Status_code :: "Status \<Rightarrow> StatusCode" where
  "Status_code s = m_Code s"

definition Status_message :: "Status \<Rightarrow> string" where
  "Status_message s = m_Message s"

text \<open>\<^verbatim>\<open>static Status OK() { return Status(); }\<close>\<close>

definition Status_OK :: Status where
  "Status_OK = Status_default"

text \<open>
  \<^verbatim>\<open>ss << "[" << StatusCodeToString(m_Code) << "] " << m_Message;\<close> reads the string
  that the returned reference refers to.
\<close>

definition ToString :: "Status \<Rightarrow> fault + string" where
  "ToString s =
     (case StatusCodeToString (m_Code s) of
        Refers name \<Rightarrow> Inr (''['' @ name @ ''] '' @ m_Message s)
      | Dangling _ \<Rightarrow> Inl DanglingReference)"

text \<open>
  The implicitly generated move operations of \<^verbatim>\<open>Status\<close>: the code, an enumerator, is
  copied; the message, a \<^verbatim>\<open>std::string\<close>, is moved. A moved-from string is valid
  with an unspecified value, so what it holds is a parameter \<open>ms\<close> of the model (every
  mainstream library leaves it empty: \<open>ms = (\<lambda>_. [])\<close>). The result is the new object
  paired with what is left of the source.
\<close>

definition Status_move :: "(string \<Rightarrow> string) \<Rightarrow> Status \<Rightarrow> Status \<times> Status" where
  "Status_move ms s = (s, s\<lparr>m_Message := ms (m_Message s)\<rparr>)"

section \<open>Contract checks (Assert.h)\<close>

text \<open>
  Modelled from the spec: the macros \<^verbatim>\<open>MYSTIC_CHECK\<close> and \<^verbatim>\<open>MYSTIC_DCKECK\<close> of
  \<^verbatim>\<open>MysticCore/Assert/Assert.h\<close>, which is not among the sources. The specification
  describes both uses as a fatal, non-recoverable contract check: the operation is
  terminated when the condition is false and goes on when it is true.
\<close>

definition MYSTIC_CHECK :: "bool \<Rightarrow> fault + 'r \<Rightarrow> fault + 'r" where
  "MYSTIC_CHECK cond rest = (if cond then rest else Inl ContractViolation)"

definition MYSTIC_DCKECK :: "bool \<Rightarrow> fault + 'r \<Rightarrow> fault + 'r" where
  "MYSTIC_DCKECK cond rest = (if cond then rest else Inl ContractViolation)"

section \<open>StatusOr (StatusOr.h)\<close>

text \<open>
  The three members of \<^verbatim>\<open>StatusOr<T>\<close>. \<^verbatim>\<open>m_Storage\<close> is raw memory: \<open>Some v\<close> when a
  \<^verbatim>\<open>T\<close> object with value \<open>v\<close> is constructed in it and not yet destructed, \<open>None\<close>
  otherwise. The flag \<^verbatim>\<open>m_IsValue\<close> is a member of its own, so the model can tell a
  container that reports no value from one whose storage holds no object.
\<close>

record 'a StatusOr =
  m_Status :: Status
  m_IsValue :: bool
  m_Storage :: "'a option"

text \<open>
  Constructor and destructor runs of \<^verbatim>\<open>T\<close> on a container's storage (placement
  \<^verbatim>\<open>new\<close>, explicit \<^verbatim>\<open>~T()\<close>), reported by every operation in the order they happen.
\<close>

datatype 'a event = Construct 'a | Destruct 'a

text \<open>
  The counter of a \<^verbatim>\<open>T\<close> that counts its live instances, after the events: every
  constructor run adds one, every destructor run takes one away.
\<close>

fun live_instances :: "'a event list \<Rightarrow> int" where
  "live_instances [] = 0"
| "live_instances (Construct v # es) = live_instances es + 1"
| "live_instances (Destruct v # es) = live_instances es - 1"

text \<open>\<^verbatim>\<open>*reinterpret_cast<T*>(m_Storage)\<close>: the object in the storage, if there is one.\<close>

definition storage_obj :: "'a option \<Rightarrow> ('a \<Rightarrow> fault + 'r) \<Rightarrow> fault + 'r" where
  "storage_obj st k = (case st of None \<Rightarrow> Inl UninitializedStorage | Some v \<Rightarrow> k v)"

text \<open>
  \<^verbatim>\<open>StatusOr(T value) : m_IsValue(true), m_Status(Status::OK())\<close>,
  \<^verbatim>\<open>new (m_Storage) T(std::move(value));\<close>
\<close>

definition StatusOr_value :: "'a \<Rightarrow> 'a StatusOr \<times> 'a event list" where
  "StatusOr_value v =
     (\<lparr>m_Status = Status_OK, m_IsValue = True, m_Storage = Some v\<rparr>, [Construct v])"

text \<open>
  \<^verbatim>\<open>StatusOr(Status status) : m_IsValue(false), m_Status(std::move(status))\<close>,
  \<^verbatim>\<open>MYSTIC_DCKECK(!status.ok())\<close>: the check reads the parameter after it was moved from.
\<close>

definition StatusOr_status :: "(string \<Rightarrow> string) \<Rightarrow> Status \<Rightarrow> fault + 'a StatusOr" where
  "StatusOr_status ms status =
     (case Status_move ms status of (member, status') \<Rightarrow>
        MYSTIC_DCKECK (\<not> Status_ok status')
          (Inr \<lparr>m_Status = member, m_IsValue = False, m_Storage = None\<rparr>))"

text \<open>
  \<^verbatim>\<open>explicit StatusOr(in_place_t tag, Args&&... args)\<close>,
  \<^verbatim>\<open>new (m_Storage) T(std::forward<Args>(args)...);\<close> where \<open>ctor\<close> is the constructor of
  \<^verbatim>\<open>T\<close> that the arguments select.
\<close>

definition StatusOr_in_place :: "('b \<Rightarrow> 'a) \<Rightarrow> 'b \<Rightarrow> 'a StatusOr \<times> 'a event list" where
  "StatusOr_in_place ctor args =
     (\<lparr>m_Status = Status_OK, m_IsValue = True, m_Storage = Some (ctor args)\<rparr>,
      [Construct (ctor args)])"

text \<open>
  \<^verbatim>\<open>~StatusOr() { if (m_IsValue) { reinterpret_cast<T*>(m_Storage)->~T(); m_IsValue = false; } }\<close>
\<close>

definition StatusOr_dtor :: "'a StatusOr \<Rightarrow> fault + 'a StatusOr \<times> 'a event list" where
  "StatusOr_dtor this =
     (if m_IsValue this then
        storage_obj (m_Storage this) (\<lambda>v.
          Inr (this\<lparr>m_IsValue := False, m_Storage := None\<rparr>, [Destruct v]))
      else Inr (this, []))"

text \<open>
  \<^verbatim>\<open>StatusOr(const StatusOr& other) : m_IsValue(other.m_IsValue), m_Status(other.m_Status)\<close>,
  \<^verbatim>\<open>if (m_IsValue) new (m_Storage) T(*reinterpret_cast<const T*>(other.m_Storage));\<close>
\<close>

definition StatusOr_copy :: "'a StatusOr \<Rightarrow> fault + 'a StatusOr \<times> 'a event list" where
  "StatusOr_copy other =
     (if m_IsValue other then
        storage_obj (m_Storage other) (\<lambda>v.
          Inr (\<lparr>m_Status = m_Status other, m_IsValue = True, m_Storage = Some v\<rparr>,
               [Construct v]))
      else Inr (\<lparr>m_Status = m_Status other, m_IsValue = False, m_Storage = None\<rparr>, []))"

text \<open>
  \<^verbatim>\<open>StatusOr(StatusOr&& other) : m_IsValue(other.m_IsValue), m_Status(other.m_Status)\<close>:
  the status is copied (\<^verbatim>\<open>other.m_Status\<close> is an lvalue). In the body,
  \<^verbatim>\<open>new (m_Storage) T(std::move(*reinterpret_cast<const T*>(other.m_Storage)));\<close>
  casts to \<^verbatim>\<open>const T*\<close>, so the argument is a \<^verbatim>\<open>const T&&\<close> and selects the copy
  constructor of \<^verbatim>\<open>T\<close>: the object of \<open>other\<close> keeps its value. Then
  \<^verbatim>\<open>other.m_IsValue = false;\<close>. The result is the new container, \<open>other\<close> afterwards and
  the events.
\<close>

definition StatusOr_move ::
  "'a StatusOr \<Rightarrow> fault + 'a StatusOr \<times> 'a StatusOr \<times> 'a event list" where
  "StatusOr_move other =
     (if m_IsValue other then
        storage_obj (m_Storage other) (\<lambda>v.
          Inr (\<lparr>m_Status = m_Status other, m_IsValue = True, m_Storage = Some v\<rparr>,
               other\<lparr>m_IsValue := False\<rparr>,
               [Construct v]))
      else Inr (\<lparr>m_Status = m_Status other, m_IsValue = False, m_Storage = None\<rparr>,
                other, []))"

text \<open>
  The right-hand side of an assignment: the object itself (\<^verbatim>\<open>this == &other\<close>) or
  another container.
\<close>

datatype 'a rhs = This | Another "'a StatusOr"

text \<open>
  \<^verbatim>\<open>StatusOr& operator=(const StatusOr& other)\<close>, its self-assignment test and its four
  cases in the order of the source. Case 1 is the copy assignment of \<^verbatim>\<open>T\<close>, which
  constructs and destructs nothing.
\<close>

definition copy_assign ::
  "'a StatusOr \<Rightarrow> 'a rhs \<Rightarrow> fault + 'a StatusOr \<times> 'a event list" where
  "copy_assign this r =
     (case r of
        This \<Rightarrow> Inr (this, [])
      | Another other \<Rightarrow>
          if m_IsValue other then
            if m_IsValue this then
              storage_obj (m_Storage this) (\<lambda>_.
                storage_obj (m_Storage other) (\<lambda>v.
                  Inr (this\<lparr>m_Storage := Some v\<rparr>, [])))
            else
              storage_obj (m_Storage other) (\<lambda>v.
                Inr (this\<lparr>m_Status := m_Status other, m_Storage := Some v, m_IsValue := True\<rparr>,
                     [Construct v]))
          else
            if m_IsValue this then
              storage_obj (m_Storage this) (\<lambda>old.
                Inr (this\<lparr>m_Storage := None, m_IsValue := False, m_Status := m_Status other\<rparr>,
                     [Destruct old]))
            else
              Inr (this\<lparr>m_Status := m_Status other\<rparr>, []))"

text \<open>
  \<^verbatim>\<open>StatusOr& operator=(StatusOr&& other) noexcept\<close>. Here the casts are to \<^verbatim>\<open>T*\<close>, so
  case 1 is the move assignment and case 2 the move constructor of \<^verbatim>\<open>T\<close>; what a moved-from
  \<^verbatim>\<open>T\<close> holds is the parameter \<open>mf\<close> (the identity for a scalar, the empty value for most
  library types). The statuses are move-assigned. The result is \<open>this\<close> afterwards, the
  right-hand side afterwards and the events.
\<close>

definition move_assign ::
  "('a \<Rightarrow> 'a) \<Rightarrow> (string \<Rightarrow> string) \<Rightarrow> 'a StatusOr \<Rightarrow> 'a rhs \<Rightarrow>
     fault + 'a StatusOr \<times> 'a rhs \<times> 'a event list" where
  "move_assign mf ms this r =
     (case r of
        This \<Rightarrow> Inr (this, This, [])
      | Another other \<Rightarrow>
          if m_IsValue other then
            if m_IsValue this then
              storage_obj (m_Storage this) (\<lambda>_.
                storage_obj (m_Storage other) (\<lambda>v.
                  Inr (this\<lparr>m_Storage := Some v\<rparr>,
                       Another (other\<lparr>m_Storage := Some (mf v), m_IsValue := False\<rparr>),
                       [])))
            else
              (case Status_move ms (m_Status other) of (st, st') \<Rightarrow>
                 storage_obj (m_Storage other) (\<lambda>v.
                   Inr (this\<lparr>m_Status := st, m_Storage := Some v, m_IsValue := True\<rparr>,
                        Another (other\<lparr>m_Status := st', m_Storage := Some (mf v),
                                       m_IsValue := False\<rparr>),
                        [Construct v])))
          else
            (case Status_move ms (m_Status other) of (st, st') \<Rightarrow>
               if m_IsValue this then
                 storage_obj (m_Storage this) (\<lambda>old.
                   Inr (this\<lparr>m_Storage := None, m_IsValue := False, m_Status := st\<rparr>,
                        Another (other\<lparr>m_Status := st'\<rparr>),
                        [Destruct old]))
               else
                 Inr (this\<lparr>m_Status := st\<rparr>, Another (other\<lparr>m_Status := st'\<rparr>), [])))"

text \<open>\<^verbatim>\<open>bool ok() const { return m_IsValue; }\<close>\<close>

definition ok :: "'a StatusOr \<Rightarrow> bool" where
  "ok this = m_IsValue this"

text \<open>\<^verbatim>\<open>const Status& status() const { return m_Status; }\<close>\<close>

definition status :: "'a StatusOr \<Rightarrow> Status" where
  "status this = m_Status this"

text \<open>
  \<^verbatim>\<open>const T& value() const&\<close> and \<^verbatim>\<open>T& value() &\<close>: the check is on the stored status,
  \<^verbatim>\<open>MYSTIC_CHECK(m_Status.ok())\<close>, then the storage is read as a \<^verbatim>\<open>T\<close>.
\<close>

definition value_const :: "'a StatusOr \<Rightarrow> fault + 'a" where
  "value_const this =
     MYSTIC_CHECK (Status_ok (m_Status this)) (storage_obj (m_Storage this) Inr)"

definition value_ref :: "'a StatusOr \<Rightarrow> fault + 'a" where
  "value_ref this =
     MYSTIC_CHECK (Status_ok (m_Status this)) (storage_obj (m_Storage this) Inr)"

text \<open>
  \<^verbatim>\<open>T value() &&\<close>: the same check, \<^verbatim>\<open>m_IsValue = false;\<close>, and the result is
  move-constructed from the stored object, which stays in the storage, moved from. The
  result is the value with the container afterwards.
\<close>

definition value_rvalue :: "('a \<Rightarrow> 'a) \<Rightarrow> 'a StatusOr \<Rightarrow> fault + 'a \<times> 'a StatusOr" where
  "value_rvalue mf this =
     MYSTIC_CHECK (Status_ok (m_Status this))
       (storage_obj (m_Storage this) (\<lambda>v.
          Inr (v, this\<lparr>m_IsValue := False, m_Storage := Some (mf v)\<rparr>)))"

text \<open>\<^verbatim>\<open>const T& operator*() const&\<close> and \<^verbatim>\<open>T& operator*() &\<close>.\<close>

definition deref_const :: "'a StatusOr \<Rightarrow> fault + 'a" where
  "deref_const this =
     MYSTIC_CHECK (Status_ok (m_Status this)) (storage_obj (m_Storage this) Inr)"

definition deref_ref :: "'a StatusOr \<Rightarrow> fault + 'a" where
  "deref_ref this =
     MYSTIC_CHECK (Status_ok (m_Status this)) (storage_obj (m_Storage this) Inr)"

text \<open>
  \<^verbatim>\<open>T&& operator*() && { MYSTIC_CHECK(m_Status.ok()) return std::move(value()); }\<close>:
  inside the member function \<^verbatim>\<open>*this\<close> is an lvalue, so \<^verbatim>\<open>value()\<close> is the
  \<^verbatim>\<open>T& value() &\<close> overload; the result is a reference to the stored object and no
  member is written. As for \<open>value_rvalue\<close>, the result is paired with the container
  afterwards.
\<close>

definition deref_rvalue :: "'a StatusOr \<Rightarrow> fault + 'a \<times> 'a StatusOr" where
  "deref_rvalue this =
     MYSTIC_CHECK (Status_ok (m_Status this))
       (case value_ref this of Inl e \<Rightarrow> Inl e | Inr v \<Rightarrow> Inr (v, this))"

text \<open>
  \<^verbatim>\<open>operator->() const&\<close> and \<^verbatim>\<open>operator->() &\<close> are declared to return
  \<^verbatim>\<open>const T&\<close> and \<^verbatim>\<open>T&\<close> and return the pointers \<^verbatim>\<open>reinterpret_cast<const T*>(m_Storage)\<close>
  and \<^verbatim>\<open>reinterpret_cast<T*>(m_Storage)\<close>. A pointer is not the stored object, and for
  an ordinary \<^verbatim>\<open>T\<close> neither body can be instantiated, so the two operators have no
  counterpart here.
\<close>

text \<open>
  \<^verbatim>\<open>const T& value_or(T default_value) const& { return ok() ? value() : default_value; }\<close>
\<close>

definition value_or :: "'a StatusOr \<Rightarrow> 'a \<Rightarrow> fault + 'a" where
  "value_or this default_value = (if ok this then value_const this else Inr default_value)"

text \<open>\<^verbatim>\<open>explicit operator bool() const { return ok(); }\<close>\<close>

definition operator_bool :: "'a StatusOr \<Rightarrow> bool" where
  "operator_bool this = ok this"

section \<open>Reachable containers\<close>

text \<open>
  The containers a program can have: those the constructors make, and every container an
  operation leaves behind, as its target or as its source. The accessors that write no
  member add nothing.
\<close>

inductive reachable :: "('a \<Rightarrow> 'a) \<Rightarrow> (string \<Rightarrow> string) \<Rightarrow> 'a StatusOr \<Rightarrow> bool"
  for mf :: "'a \<Rightarrow> 'a" and ms :: "string \<Rightarrow> string" where
  by_value: "reachable mf ms (fst (StatusOr_value v))"
| by_status: "StatusOr_status ms st = Inr s \<Longrightarrow> reachable mf ms s"
| by_in_place: "reachable mf ms (fst (StatusOr_in_place (\<lambda>_ :: unit. v) ()))"
| by_copy: "reachable mf ms other \<Longrightarrow> StatusOr_copy other = Inr (s, ev) \<Longrightarrow> reachable mf ms s"
| by_move: "reachable mf ms other \<Longrightarrow> StatusOr_move other = Inr (s, other', ev) \<Longrightarrow>
     reachable mf ms s"
| moved_from: "reachable mf ms other \<Longrightarrow> StatusOr_move other = Inr (s, other', ev) \<Longrightarrow>
     reachable mf ms other'"
| by_copy_assign_self: "reachable mf ms this \<Longrightarrow> copy_assign this This = Inr (this', ev) \<Longrightarrow>
     reachable mf ms this'"
| by_copy_assign: "reachable mf ms this \<Longrightarrow> reachable mf ms other \<Longrightarrow>
     copy_assign this (Another other) = Inr (this', ev) \<Longrightarrow> reachable mf ms this'"
| by_move_assign_self: "reachable mf ms this \<Longrightarrow>
     move_assign mf ms this This = Inr (this', r', ev) \<Longrightarrow> reachable mf ms this'"
| by_move_assign: "reachable mf ms this \<Longrightarrow> reachable mf ms other \<Longrightarrow>
     move_assign mf ms this (Another other) = Inr (this', r', ev) \<Longrightarrow> reachable mf ms this'"
| move_assigned_from: "reachable mf ms this \<Longrightarrow> reachable mf ms other \<Longrightarrow>
     move_assign mf ms this (Another other) = Inr (this', Another other', ev) \<Longrightarrow>
     reachable mf ms other'"
| by_value_rvalue: "reachable mf ms this \<Longrightarrow> value_rvalue mf this = Inr (v, this') \<Longrightarrow>
     reachable mf ms this'"
| by_deref_rvalue: "reachable mf ms this \<Longrightarrow> deref_rvalue this = Inr (v, this') \<Longrightarrow>
     reachable mf ms this'"

text \<open>
  What every operation keeps: a container that reports a value has an OK status and a
  constructed object in its storage.
\<close>

definition StatusOr_inv :: "'a StatusOr \<Rightarrow> bool" where
  "StatusOr_inv s = (m_IsValue s \<longrightarrow> Status_ok (m_Status s) \<and> m_Storage s \<noteq> None)"





text \<open>
  The containers that no value was moved out of and that no such container was copied or
  assigned into: the rules of \<open>reachable\<close> without the source of a move that held a
  value (move construction, move assignment, the rvalue-qualified \<open>value\<close>), and with
  every other container of a rule one of these again. A source that holds no value stays
  among them: the move leaves it without a value, as it was.
\<close>

inductive intact :: "('a \<Rightarrow> 'a) \<Rightarrow> (string \<Rightarrow> string) \<Rightarrow> 'a StatusOr \<Rightarrow> bool"
  for mf :: "'a \<Rightarrow> 'a" and ms :: "string \<Rightarrow> string" where
  i_value: "intact mf ms (fst (StatusOr_value v))"
| i_status: "StatusOr_status ms st = Inr s \<Longrightarrow> intact mf ms s"
| i_in_place: "intact mf ms (fst (StatusOr_in_place (\<lambda>_ :: unit. v) ()))"
| i_copy: "intact mf ms other \<Longrightarrow> StatusOr_copy other = Inr (s, ev) \<Longrightarrow> intact mf ms s"
| i_move: "intact mf ms other \<Longrightarrow> StatusOr_move other = Inr (s, other', ev) \<Longrightarrow>
     intact mf ms s"
| i_moved_from: "intact mf ms other \<Longrightarrow> \<not> ok other \<Longrightarrow>
     StatusOr_move other = Inr (s, other', ev) \<Longrightarrow> intact mf ms other'"
| i_copy_assign_self: "intact mf ms this \<Longrightarrow> copy_assign this This = Inr (this', ev) \<Longrightarrow>
     intact mf ms this'"
| i_copy_assign: "intact mf ms this \<Longrightarrow> intact mf ms other \<Longrightarrow>
     copy_assign this (Another other) = Inr (this', ev) \<Longrightarrow> intact mf ms this'"
| i_move_assign_self: "intact mf ms this \<Longrightarrow>
     move_assign mf ms this This = Inr (this', r', ev) \<Longrightarrow> intact mf ms this'"
| i_move_assign: "intact mf ms this \<Longrightarrow> intact mf ms other \<Longrightarrow>
     move_assign mf ms this (Another other) = Inr (this', r', ev) \<Longrightarrow> intact mf ms this'"
| i_move_assigned_from: "intact mf ms this \<Longrightarrow> intact mf ms other \<Longrightarrow> \<not> ok other \<Longrightarrow>
     move_assign mf ms this (Another other) = Inr (this', Another other', ev) \<Longrightarrow>
     intact mf ms other'"
| i_deref_rvalue: "intact mf ms this \<Longrightarrow> deref_rvalue this = Inr (v, this') \<Longrightarrow>
     intact mf ms this'"

section \<open>The name table\<close>

lemmas StatusCode_defs =
  OK_def CANCELLED_def INVALID_ARGUMENT_def NOT_FOUND_def ALREADY_EXISTS_def
  PERMISSION_DENIED_def UNAUTHENTICATED_def OUT_OF_RANGE_def DEADLINE_EXCEEDED_def
  RESOURCE_EXHAUSTED_def FAILED_PRECONDITION_def ABORTED_def UNIMPLEMENTED_def
  INTERNAL_def UNAVAILABLE_def DATA_LOSS_def

text \<open>The literal that each case of the \<^verbatim>\<open>switch\<close> selects is the one of the table.\<close>

lemma StatusCodeToString_Unknown:
  assumes "15 < code"
  shows "StatusCodeToString code = Dangling ''Unknown''"
proof -
  have "15 < unat code"
    using assms by (simp add: word_less_nat_alt)
  then have "code \<noteq> 0" "code \<noteq> 1" "code \<noteq> 2" "code \<noteq> 3" "code \<noteq> 4" "code \<noteq> 5"
    "code \<noteq> 6" "code \<noteq> 7" "code \<noteq> 8" "code \<noteq> 9" "code \<noteq> 10" "code \<noteq> 11"
    "code \<noteq> 12" "code \<noteq> 13" "code \<noteq> 14" "code \<noteq> 15"
    by auto
  then show ?thesis
    by (simp add: StatusCodeToString_def StatusCode_defs return_temporary_def)
qed

lemma StatusCodeToString_named:
  "StatusCodeToString OK = Dangling ''Ok''"
  "StatusCodeToString CANCELLED = Dangling ''Cancelled''"
  "StatusCodeToString INVALID_ARGUMENT = Dangling ''Invalid Argument''"
  "StatusCodeToString NOT_FOUND = Dangling ''Not Found''"
  "StatusCodeToString ALREADY_EXISTS = Dangling ''Already Exists''"
  "StatusCodeToString PERMISSION_DENIED = Dangling ''Permission Denied''"
  "StatusCodeToString UNAUTHENTICATED = Dangling ''Unauthenticated''"
  "StatusCodeToString OUT_OF_RANGE = Dangling ''Out of Range''"
  "StatusCodeToString DEADLINE_EXCEEDED = Dangling ''Deadline Exceeded''"
  "StatusCodeToString RESOURCE_EXHAUSTED = Dangling ''Resource Exhausted''"
  "StatusCodeToString FAILED_PRECONDITION = Dangling ''Failed Precondition''"
  "StatusCodeToString ABORTED = Dangling ''Aborted''"
  "StatusCodeToString UNIMPLEMENTED = Dangling ''Unimplemented''"
  "StatusCodeToString INTERNAL = Dangling ''Internal''"
  "StatusCodeToString UNAVAILABLE = Dangling ''Unavailable''"
  "StatusCodeToString DATA_LOSS = Dangling ''Data Loss''"
  by (simp_all add: StatusCodeToString_def StatusCode_defs return_temporary_def)

lemma StatusCodeToString_never_refers: "StatusCodeToString code \<noteq> Refers name"
  by (simp add: StatusCodeToString_def return_temporary_def)

section \<open>What the operations keep\<close>

lemmas op_defs =
  StatusOr_value_def StatusOr_status_def StatusOr_in_place_def StatusOr_dtor_def
  StatusOr_copy_def StatusOr_move_def copy_assign_def move_assign_def
  value_const_def value_ref_def value_rvalue_def deref_const_def deref_ref_def
  deref_rvalue_def value_or_def
  MYSTIC_CHECK_def MYSTIC_DCKECK_def storage_obj_def Status_move_def
  ok_def status_def

lemma Status_OK_ok: "Status_ok Status_OK"
  by (simp add: Status_ok_def Status_OK_def Status_default_def)

lemma StatusOr_in_place_value: "StatusOr_in_place ctor args = StatusOr_value (ctor args)"
  by (simp add: StatusOr_in_place_def StatusOr_value_def)

lemma reachable_inv:
  assumes "reachable mf ms s"
  shows "StatusOr_inv s"
  using assms
proof (induction rule: reachable.induct)
  case (by_value v)
  then show ?case by (simp add: StatusOr_inv_def StatusOr_value_def Status_OK_ok)
next
  case (by_status st s)
  then show ?case
    by (auto simp: StatusOr_inv_def op_defs split: if_splits)
next
  case (by_in_place v)
  then show ?case by (simp add: StatusOr_inv_def StatusOr_in_place_def Status_OK_ok)
next
  case (by_copy other s ev)
  then show ?case
    by (auto simp: StatusOr_inv_def op_defs split: if_splits option.splits)
next
  case (by_move other s other' ev)
  then show ?case
    by (auto simp: StatusOr_inv_def op_defs split: if_splits option.splits)
next
  case (moved_from other s other' ev)
  then show ?case
    by (auto simp: StatusOr_inv_def op_defs split: if_splits option.splits)
next
  case (by_copy_assign_self this this' ev)
  then show ?case by (simp add: copy_assign_def)
next
  case (by_copy_assign this other this' ev)
  then show ?case
    by (auto simp: StatusOr_inv_def op_defs split: if_splits option.splits)
next
  case (by_move_assign_self this this' r' ev)
  then show ?case by (simp add: move_assign_def)
next
  case (by_move_assign this other this' r' ev)
  then show ?case
    by (auto simp: StatusOr_inv_def op_defs split: if_splits option.splits)
next
  case (move_assigned_from this other this' other' ev)
  then show ?case
    by (auto simp: StatusOr_inv_def op_defs Status_ok_def split: if_splits option.splits)
next
  case (by_value_rvalue this v this')
  then show ?case
    by (auto simp: StatusOr_inv_def op_defs split: if_splits option.splits)
next
  case (by_deref_rvalue this v this')
  then show ?case
    by (auto simp: op_defs split: if_splits option.splits)
qed

lemma reachable_holds:
  assumes "reachable mf ms s" and "ok s"
  obtains v where "m_Storage s = Some v" and "Status_ok (m_Status s)"
  using reachable_inv [OF assms(1)] assms(2) by (auto simp: StatusOr_inv_def ok_def)

text \<open>
  A container that was moved from, and a copy of it: both are reachable, whatever value
  was held.
\<close>

lemma reachable_moved_from:
  "reachable mf ms \<lparr>m_Status = Status_OK, m_IsValue = False, m_Storage = Some v\<rparr>"
proof -
  have "reachable mf ms (fst (StatusOr_value v))"
    by (rule reachable.by_value)
  moreover have "StatusOr_move (fst (StatusOr_value v)) =
      Inr (fst (StatusOr_value v),
           \<lparr>m_Status = Status_OK, m_IsValue = False, m_Storage = Some v\<rparr>, [Construct v])"
    by (simp add: op_defs)
  ultimately show ?thesis
    by (rule reachable.moved_from)
qed


text \<open>A container made from a value, and one made from a status that is not OK.\<close>

lemma reachable_value:
  "reachable mf ms \<lparr>m_Status = Status_OK, m_IsValue = True, m_Storage = Some v\<rparr>"
  using reachable.by_value [of mf ms v] by (simp add: StatusOr_value_def)

lemma reachable_error:
  assumes "\<not> Status_ok st"
  shows "reachable mf ms \<lparr>m_Status = st, m_IsValue = False, m_Storage = None\<rparr>"
proof (rule reachable.by_status)
  show "StatusOr_status ms st = Inr \<lparr>m_Status = st, m_IsValue = False, m_Storage = None\<rparr>"
    using assms by (simp add: op_defs Status_ok_def)
qed

lemma not_found_not_ok: "\<not> Status_ok (Status_ctor NOT_FOUND msg)"
  by (simp add: Status_ok_def Status_ctor_def NOT_FOUND_def OK_def)

section \<open>The tagged union\<close>







section \<open>Construction\<close>

text \<open>
  C5. Constructing a container from a status runs the contract check on the status: an OK
  status ends in the contract violation, and a status that is not OK gives a container for
  which \<open>ok\<close> is false and \<open>status\<close> is the status that was given. The check reads the
  parameter after the member was move-constructed from it; a move keeps the code, so the
  outcome does not depend on what the moved-from message holds (\<open>ms\<close>).
\<close>

theorem from_status:
  "(Status_ok st \<longrightarrow> (StatusOr_status ms st :: fault + 'a StatusOr) = Inl ContractViolation) \<and>
   (\<not> Status_ok st \<longrightarrow>
      (StatusOr_status ms st :: fault + 'a StatusOr) =
         Inr \<lparr>m_Status = st, m_IsValue = False, m_Storage = None\<rparr> \<and>
      \<not> ok \<lparr>m_Status = st, m_IsValue = False, m_Storage = None :: 'a option\<rparr> \<and>
      status \<lparr>m_Status = st, m_IsValue = False, m_Storage = None :: 'a option\<rparr> = st)"
  by (simp add: op_defs Status_ok_def)

theorem from_status_witness:
  "Status_ok Status_OK \<and>
   (StatusOr_status id Status_OK :: fault + int StatusOr) = Inl ContractViolation \<and>
   \<not> Status_ok (Status_ctor NOT_FOUND ''missing key'') \<and>
   (StatusOr_status id (Status_ctor NOT_FOUND ''missing key'') :: fault + int StatusOr) =
     Inr \<lparr>m_Status = Status_ctor NOT_FOUND ''missing key'', m_IsValue = False,
          m_Storage = None\<rparr> \<and>
   \<not> ok \<lparr>m_Status = Status_ctor NOT_FOUND ''missing key'', m_IsValue = False,
          m_Storage = None :: int option\<rparr> \<and>
   status \<lparr>m_Status = Status_ctor NOT_FOUND ''missing key'', m_IsValue = False,
          m_Storage = None :: int option\<rparr> = Status_ctor NOT_FOUND ''missing key''"
proof -
  have a: "Status_ok Status_OK"
    by (rule Status_OK_ok)
  have b: "\<not> Status_ok (Status_ctor NOT_FOUND ''missing key'')"
    by (simp add: Status_ok_def Status_ctor_def NOT_FOUND_def OK_def)
  from a b
    from_status [of Status_OK id, where 'a = int]
    from_status [of "Status_ctor NOT_FOUND ''missing key''" id, where 'a = int]
  show ?thesis by simp
qed

text \<open>
  C6. Round trip: a container constructed from a value \<open>v\<close> gives \<open>v\<close> back from each
  of the three \<open>value\<close> overloads, \<open>ok\<close> is true and the stored status is OK.
\<close>

theorem value_round_trip:
  "value_const (fst (StatusOr_value v)) = Inr v \<and>
   value_ref (fst (StatusOr_value v)) = Inr v \<and>
   value_rvalue mf (fst (StatusOr_value v)) =
     Inr (v, \<lparr>m_Status = Status_OK, m_IsValue = False, m_Storage = Some (mf v)\<rparr>) \<and>
   ok (fst (StatusOr_value v)) \<and>
   Status_ok (status (fst (StatusOr_value v)))"
  by (simp add: op_defs Status_OK_ok)

section \<open>Rendering\<close>

text \<open>
  C7 says that the name lookup returns the string of the table for each code and Unknown
  for every other value, and that \<open>ToString\<close> renders a status as the name in square
  brackets, a space and the message. The \<^verbatim>\<open>switch\<close> selects the literal of the table,
  but the function returns it by reference to a temporary: for \<^verbatim>\<open>NOT_FOUND\<close> the caller
  gets a reference to a string that was "Not Found" and is destroyed, and \<open>ToString\<close>
  of \<^verbatim>\<open>Status(StatusCode::NOT_FOUND, "missing key")\<close> reads through it instead of giving
  "[Not Found] missing key". The same holds for every code and every status.
\<close>

theorem name_lookup_dangles:
  "StatusCodeToString NOT_FOUND = Dangling ''Not Found'' \<and>
   StatusCodeToString NOT_FOUND \<noteq> Refers ''Not Found'' \<and>
   ToString (Status_ctor NOT_FOUND ''missing key'') = Inl DanglingReference \<and>
   ToString (Status_ctor NOT_FOUND ''missing key'') \<noteq> Inr ''[Not Found] missing key'' \<and>
   StatusCodeToString code \<noteq> Refers name \<and>
   ToString s = Inl DanglingReference"
proof -
  have "ToString t = Inl DanglingReference" for t
    by (simp add: ToString_def StatusCodeToString_def return_temporary_def)
  then show ?thesis
    by (simp add: StatusCodeToString_named StatusCodeToString_never_refers)
qed

section \<open>Access\<close>

text \<open>
  C2, as the code has it. For every reachable container, each \<open>value\<close> overload returns
  the held value when \<open>ok\<close> holds, and the contract check of each overload fires if and
  only if the stored status is not OK. The check reads \<^verbatim>\<open>m_Status\<close>, not
  \<^verbatim>\<open>m_IsValue\<close>: on a container that was moved from, \<open>ok\<close> is false and the check
  does not fire.
\<close>

theorem value_contract:
  assumes "reachable mf ms s"
  shows "(ok s \<longrightarrow> (\<exists>v. m_Storage s = Some v \<and>
             value_const s = Inr v \<and> value_ref s = Inr v \<and>
             value_rvalue mf s = Inr (v, s\<lparr>m_IsValue := False, m_Storage := Some (mf v)\<rparr>))) \<and>
         ((value_const s = Inl ContractViolation) = (\<not> Status_ok (status s))) \<and>
         ((value_ref s = Inl ContractViolation) = (\<not> Status_ok (status s))) \<and>
         ((value_rvalue mf s = Inl ContractViolation) = (\<not> Status_ok (status s)))"
proof -
  have held: "\<exists>v. m_Storage s = Some v \<and>
             value_const s = Inr v \<and> value_ref s = Inr v \<and>
             value_rvalue mf s = Inr (v, s\<lparr>m_IsValue := False, m_Storage := Some (mf v)\<rparr>)"
    if "ok s"
  proof -
    from assms that obtain v where "m_Storage s = Some v" "Status_ok (m_Status s)"
      by (rule reachable_holds)
    then show ?thesis
      by (simp add: op_defs)
  qed
  have fires: "(value_const s = Inl ContractViolation) = (\<not> Status_ok (status s))"
    "(value_ref s = Inl ContractViolation) = (\<not> Status_ok (status s))"
    "(value_rvalue mf s = Inl ContractViolation) = (\<not> Status_ok (status s))"
    by (auto simp: op_defs split: option.splits)
  from held fires show ?thesis
    by blast
qed

theorem value_contract_witness:
  "reachable id id (fst (StatusOr_value (42::int))) \<and> ok (fst (StatusOr_value (42::int))) \<and>
   value_const (fst (StatusOr_value (42::int))) = Inr 42 \<and>
   value_ref (fst (StatusOr_value (42::int))) = Inr 42 \<and>
   value_rvalue id (fst (StatusOr_value (42::int))) =
     Inr (42, \<lparr>m_Status = Status_OK, m_IsValue = False, m_Storage = Some 42\<rparr>)"
proof -
  have r: "reachable id id (fst (StatusOr_value (42::int)))"
    by (rule reachable.by_value)
  have k: "ok (fst (StatusOr_value (42::int)))"
    by (simp add: ok_def StatusOr_value_def)
  from value_contract [OF r] k r show ?thesis
    by (auto simp: StatusOr_value_def)
qed

text \<open>
  After \<^verbatim>\<open>StatusOr<int> a(42); StatusOr<int> c(std::move(a));\<close> the container \<open>a\<close>
  reports no value, and none of its \<open>value\<close> overloads ends in the contract violation.
\<close>

theorem value_moved_from_counterexample:
  "reachable id id \<lparr>m_Status = Status_OK, m_IsValue = False, m_Storage = Some (42::int)\<rparr> \<and>
   \<not> ok \<lparr>m_Status = Status_OK, m_IsValue = False, m_Storage = Some (42::int)\<rparr> \<and>
   value_const \<lparr>m_Status = Status_OK, m_IsValue = False, m_Storage = Some (42::int)\<rparr> = Inr 42 \<and>
   value_ref \<lparr>m_Status = Status_OK, m_IsValue = False, m_Storage = Some (42::int)\<rparr> = Inr 42 \<and>
   value_rvalue id \<lparr>m_Status = Status_OK, m_IsValue = False, m_Storage = Some (42::int)\<rparr> =
     Inr (42, \<lparr>m_Status = Status_OK, m_IsValue = False, m_Storage = Some 42\<rparr>)"
  by (simp add: reachable_moved_from op_defs Status_OK_ok)

text \<open>
  C8, as the code has it. The const-lvalue and lvalue dereference operators are the
  corresponding \<open>value\<close> accessors: the same check, the same object. The
  rvalue-qualified dereference ends as the rvalue-qualified \<open>value\<close> does, with the same
  fault or the same value, but it leaves the container as it was: \<open>ok\<close> is unchanged.
  On a reachable container for which \<open>ok\<close> holds all three give the held value, and the
  check of each fires if and only if the stored status is not OK. The arrow operators are
  not part of the statement.
\<close>

theorem deref_mirrors_value:
  assumes "reachable mf ms s"
  shows "deref_const s = value_const s \<and> deref_ref s = value_ref s \<and>
         deref_rvalue s = map_sum id (\<lambda>(v, _). (v, s)) (value_rvalue mf s) \<and>
         (ok s \<longrightarrow> (\<exists>v. m_Storage s = Some v \<and>
             deref_const s = Inr v \<and> deref_ref s = Inr v \<and>
             deref_rvalue s = Inr (v, s))) \<and>
         ((deref_const s = Inl ContractViolation) = (\<not> Status_ok (status s))) \<and>
         ((deref_ref s = Inl ContractViolation) = (\<not> Status_ok (status s))) \<and>
         ((deref_rvalue s = Inl ContractViolation) = (\<not> Status_ok (status s)))"
proof -
  have same: "deref_const s = value_const s" "deref_ref s = value_ref s"
    by (simp_all add: op_defs)
  have rv: "deref_rvalue s = map_sum id (\<lambda>(v, _). (v, s)) (value_rvalue mf s)"
    by (simp add: op_defs split: option.splits)
  have held: "\<exists>v. m_Storage s = Some v \<and>
             deref_const s = Inr v \<and> deref_ref s = Inr v \<and>
             deref_rvalue s = Inr (v, s)" if "ok s"
  proof -
    from assms that obtain v where "m_Storage s = Some v" "Status_ok (m_Status s)"
      by (rule reachable_holds)
    then show ?thesis
      by (simp add: op_defs)
  qed
  have fires: "(deref_const s = Inl ContractViolation) = (\<not> Status_ok (status s))"
    "(deref_ref s = Inl ContractViolation) = (\<not> Status_ok (status s))"
    "(deref_rvalue s = Inl ContractViolation) = (\<not> Status_ok (status s))"
    by (auto simp: op_defs split: option.splits)
  from same rv held fires show ?thesis
    by blast
qed

theorem deref_mirrors_value_witness:
  "reachable id id \<lparr>m_Status = Status_OK, m_IsValue = True, m_Storage = Some (42::int)\<rparr> \<and>
   ok \<lparr>m_Status = Status_OK, m_IsValue = True, m_Storage = Some (42::int)\<rparr> \<and>
   deref_const \<lparr>m_Status = Status_OK, m_IsValue = True, m_Storage = Some (42::int)\<rparr> = Inr 42 \<and>
   deref_ref \<lparr>m_Status = Status_OK, m_IsValue = True, m_Storage = Some (42::int)\<rparr> = Inr 42 \<and>
   deref_rvalue \<lparr>m_Status = Status_OK, m_IsValue = True, m_Storage = Some (42::int)\<rparr> =
     Inr (42, \<lparr>m_Status = Status_OK, m_IsValue = True, m_Storage = Some 42\<rparr>)"
proof -
  let ?V = "\<lparr>m_Status = Status_OK, m_IsValue = True, m_Storage = Some (42::int)\<rparr>"
  have rv: "reachable id id ?V"
    by (rule reachable_value)
  have k: "ok ?V"
    by (simp add: ok_def)
  from deref_mirrors_value [OF rv] rv k show ?thesis
    by auto
qed

text \<open>
  \<^verbatim>\<open>StatusOr<int> a(42); *std::move(a);\<close> leaves \<open>ok\<close> true, where
  \<^verbatim>\<open>std::move(a).value()\<close> leaves it false.
\<close>

theorem deref_rvalue_keeps_value_counterexample:
  "deref_rvalue \<lparr>m_Status = Status_OK, m_IsValue = True, m_Storage = Some (42::int)\<rparr> =
     Inr (42, \<lparr>m_Status = Status_OK, m_IsValue = True, m_Storage = Some 42\<rparr>) \<and>
   ok \<lparr>m_Status = Status_OK, m_IsValue = True, m_Storage = Some (42::int)\<rparr> \<and>
   value_rvalue id \<lparr>m_Status = Status_OK, m_IsValue = True, m_Storage = Some (42::int)\<rparr> =
     Inr (42, \<lparr>m_Status = Status_OK, m_IsValue = False, m_Storage = Some 42\<rparr>) \<and>
   \<not> ok \<lparr>m_Status = Status_OK, m_IsValue = False, m_Storage = Some (42::int)\<rparr>"
  by (simp add: op_defs Status_OK_ok)



section \<open>Assignment and moves\<close>

text \<open>
  C3. Copy assignment between reachable containers. A source without a value over a target
  with a value: one destructor run, on the target's old value, and the target ends with
  \<open>ok\<close> false and the status of the source. A source with a value over a target
  without one: one constructor run, of a copy of the source's value, and the target ends
  with \<open>ok\<close> true, holding that value.
\<close>

theorem copy_assign_quadrants:
  assumes "reachable mf ms this" and "reachable mf ms other"
  shows "(ok this \<and> \<not> ok other \<longrightarrow>
           (\<exists>old. m_Storage this = Some old \<and>
              copy_assign this (Another other) =
                Inr (this\<lparr>m_Storage := None, m_IsValue := False, m_Status := status other\<rparr>,
                     [Destruct old]) \<and>
              \<not> ok (this\<lparr>m_Storage := None, m_IsValue := False, m_Status := status other\<rparr>) \<and>
              status (this\<lparr>m_Storage := None, m_IsValue := False, m_Status := status other\<rparr>)
                = status other)) \<and>
         (\<not> ok this \<and> ok other \<longrightarrow>
           (\<exists>v. m_Storage other = Some v \<and>
              copy_assign this (Another other) =
                Inr (this\<lparr>m_Status := status other, m_Storage := Some v, m_IsValue := True\<rparr>,
                     [Construct v]) \<and>
              ok (this\<lparr>m_Status := status other, m_Storage := Some v, m_IsValue := True\<rparr>) \<and>
              value_const (this\<lparr>m_Status := status other, m_Storage := Some v, m_IsValue := True\<rparr>)
                = Inr v))"
proof (intro conjI impI)
  assume "ok this \<and> \<not> ok other"
  then have a: "ok this" "\<not> ok other" by simp_all
  from assms(1) a(1) obtain old where "m_Storage this = Some old" "Status_ok (m_Status this)"
    by (rule reachable_holds)
  with a show "\<exists>old. m_Storage this = Some old \<and>
              copy_assign this (Another other) =
                Inr (this\<lparr>m_Storage := None, m_IsValue := False, m_Status := status other\<rparr>,
                     [Destruct old]) \<and>
              \<not> ok (this\<lparr>m_Storage := None, m_IsValue := False, m_Status := status other\<rparr>) \<and>
              status (this\<lparr>m_Storage := None, m_IsValue := False, m_Status := status other\<rparr>)
                = status other"
    by (simp add: op_defs)
next
  assume "\<not> ok this \<and> ok other"
  then have a: "\<not> ok this" "ok other" by simp_all
  from assms(2) a(2) obtain v where "m_Storage other = Some v" "Status_ok (m_Status other)"
    by (rule reachable_holds)
  with a show "\<exists>v. m_Storage other = Some v \<and>
              copy_assign this (Another other) =
                Inr (this\<lparr>m_Status := status other, m_Storage := Some v, m_IsValue := True\<rparr>,
                     [Construct v]) \<and>
              ok (this\<lparr>m_Status := status other, m_Storage := Some v, m_IsValue := True\<rparr>) \<and>
              value_const (this\<lparr>m_Status := status other, m_Storage := Some v, m_IsValue := True\<rparr>)
                = Inr v"
    by (simp add: op_defs)
qed

theorem copy_assign_quadrants_witness:
  "reachable id id \<lparr>m_Status = Status_OK, m_IsValue = True, m_Storage = Some (7::int)\<rparr> \<and>
   reachable id id \<lparr>m_Status = Status_ctor NOT_FOUND ''missing key'', m_IsValue = False,
                   m_Storage = None :: int option\<rparr> \<and>
   ok \<lparr>m_Status = Status_OK, m_IsValue = True, m_Storage = Some (7::int)\<rparr> \<and>
   \<not> ok \<lparr>m_Status = Status_ctor NOT_FOUND ''missing key'', m_IsValue = False,
          m_Storage = None :: int option\<rparr> \<and>
   copy_assign \<lparr>m_Status = Status_OK, m_IsValue = True, m_Storage = Some (7::int)\<rparr>
     (Another \<lparr>m_Status = Status_ctor NOT_FOUND ''missing key'', m_IsValue = False,
               m_Storage = None\<rparr>) =
     Inr (\<lparr>m_Status = Status_ctor NOT_FOUND ''missing key'', m_IsValue = False,
           m_Storage = None\<rparr>, [Destruct 7]) \<and>
   copy_assign \<lparr>m_Status = Status_ctor NOT_FOUND ''missing key'', m_IsValue = False,
                m_Storage = None\<rparr>
     (Another \<lparr>m_Status = Status_OK, m_IsValue = True, m_Storage = Some (7::int)\<rparr>) =
     Inr (\<lparr>m_Status = Status_OK, m_IsValue = True, m_Storage = Some 7\<rparr>, [Construct 7])"
proof -
  let ?V = "\<lparr>m_Status = Status_OK, m_IsValue = True, m_Storage = Some (7::int)\<rparr>"
  let ?E = "\<lparr>m_Status = Status_ctor NOT_FOUND ''missing key'', m_IsValue = False,
             m_Storage = None :: int option\<rparr>"
  have rv: "reachable id id ?V"
    by (rule reachable_value)
  have re: "reachable id id ?E"
    by (rule reachable_error) (rule not_found_not_ok)
  have k: "ok ?V" "\<not> ok ?E"
    by (simp_all add: ok_def)
  from copy_assign_quadrants [OF rv re] copy_assign_quadrants [OF re rv] k rv re
  show ?thesis
    by (simp add: status_def)
qed

text \<open>
  C4, as the code has it. Moving from a reachable container that holds a value (move
  construction, the rvalue-qualified \<open>value\<close>, being the source of a move assignment
  to a reachable target) leaves it with \<open>ok\<close> false; its destructor then runs no
  destructor of \<^verbatim>\<open>T\<close> and returns it unchanged, and the target holds the value, which
  the target's destructor destructs once. The move itself runs no destructor: move
  construction constructs one object, in the target; move assignment constructs one in a
  target that held no value and none in a target that held one; the rvalue-qualified
  \<open>value\<close> constructs nothing in a container. The object that stays in the storage
  of the moved-from container is not destructed.
\<close>

theorem moved_from_not_destroyed:
  assumes "reachable mf ms src" and "ok src" and "reachable mf ms this"
  shows "\<exists>v. m_Storage src = Some v \<and>
     StatusOr_move src =
       Inr (\<lparr>m_Status = status src, m_IsValue = True, m_Storage = Some v\<rparr>,
            src\<lparr>m_IsValue := False\<rparr>, [Construct v]) \<and>
     \<not> ok (src\<lparr>m_IsValue := False\<rparr>) \<and>
     StatusOr_dtor (src\<lparr>m_IsValue := False\<rparr>) = Inr (src\<lparr>m_IsValue := False\<rparr>, []) \<and>
     value_const \<lparr>m_Status = status src, m_IsValue = True, m_Storage = Some v\<rparr> = Inr v \<and>
     StatusOr_dtor \<lparr>m_Status = status src, m_IsValue = True, m_Storage = Some v\<rparr> =
       Inr (\<lparr>m_Status = status src, m_IsValue = False, m_Storage = None\<rparr>, [Destruct v]) \<and>
     value_rvalue mf src = Inr (v, src\<lparr>m_IsValue := False, m_Storage := Some (mf v)\<rparr>) \<and>
     \<not> ok (src\<lparr>m_IsValue := False, m_Storage := Some (mf v)\<rparr>) \<and>
     StatusOr_dtor (src\<lparr>m_IsValue := False, m_Storage := Some (mf v)\<rparr>) =
       Inr (src\<lparr>m_IsValue := False, m_Storage := Some (mf v)\<rparr>, []) \<and>
     (ok this \<longrightarrow>
        move_assign mf ms this (Another src) =
          Inr (this\<lparr>m_Storage := Some v\<rparr>,
               Another (src\<lparr>m_Storage := Some (mf v), m_IsValue := False\<rparr>), [])) \<and>
     (\<not> ok this \<longrightarrow>
        move_assign mf ms this (Another src) =
          Inr (this\<lparr>m_Status := status src, m_Storage := Some v, m_IsValue := True\<rparr>,
               Another (src\<lparr>m_Status := snd (Status_move ms (status src)),
                             m_Storage := Some (mf v), m_IsValue := False\<rparr>),
               [Construct v])) \<and>
     (\<exists>this' src'.
        move_assign mf ms this (Another src) =
          Inr (this', Another src', if ok this then [] else [Construct v]) \<and>
        \<not> ok src' \<and> StatusOr_dtor src' = Inr (src', []) \<and>
        ok this' \<and> value_const this' = Inr v \<and>
        StatusOr_dtor this' = Inr (this'\<lparr>m_IsValue := False, m_Storage := None\<rparr>, [Destruct v]))"
proof -
  from assms(1,2) obtain v where v: "m_Storage src = Some v" "Status_ok (m_Status src)"
    by (rule reachable_holds)
  have src: "m_IsValue src"
    using assms(2) by (simp add: ok_def)
  have onto_value: "move_assign mf ms this (Another src) =
          Inr (this\<lparr>m_Storage := Some v\<rparr>,
               Another (src\<lparr>m_Storage := Some (mf v), m_IsValue := False\<rparr>), [])"
    and held: "Status_ok (m_Status this)" if "ok this"
  proof -
    from assms(3) that obtain w where w: "m_Storage this = Some w" "Status_ok (m_Status this)"
      by (rule reachable_holds)
    from w(2) show "Status_ok (m_Status this)" .
    from w v src that show "move_assign mf ms this (Another src) =
          Inr (this\<lparr>m_Storage := Some v\<rparr>,
               Another (src\<lparr>m_Storage := Some (mf v), m_IsValue := False\<rparr>), [])"
      by (simp add: op_defs)
  qed
  have onto_status: "move_assign mf ms this (Another src) =
          Inr (this\<lparr>m_Status := status src, m_Storage := Some v, m_IsValue := True\<rparr>,
               Another (src\<lparr>m_Status := snd (Status_move ms (status src)),
                             m_Storage := Some (mf v), m_IsValue := False\<rparr>),
               [Construct v])" if "\<not> ok this"
    using v src that by (simp add: op_defs)
  have assign: "\<exists>this' src'.
        move_assign mf ms this (Another src) =
          Inr (this', Another src', if ok this then [] else [Construct v]) \<and>
        \<not> ok src' \<and> StatusOr_dtor src' = Inr (src', []) \<and>
        ok this' \<and> value_const this' = Inr v \<and>
        StatusOr_dtor this' = Inr (this'\<lparr>m_IsValue := False, m_Storage := None\<rparr>, [Destruct v])"
  proof (cases "ok this")
    case True
    from onto_value [OF True] held [OF True] True show ?thesis
      by (simp add: op_defs)
  next
    case False
    from onto_status [OF False] False v show ?thesis
      by (simp add: op_defs)
  qed
  from v src have "StatusOr_move src =
       Inr (\<lparr>m_Status = status src, m_IsValue = True, m_Storage = Some v\<rparr>,
            src\<lparr>m_IsValue := False\<rparr>, [Construct v])"
    "value_rvalue mf src = Inr (v, src\<lparr>m_IsValue := False, m_Storage := Some (mf v)\<rparr>)"
    "value_const \<lparr>m_Status = status src, m_IsValue = True, m_Storage = Some v\<rparr> = Inr v"
    by (simp_all add: op_defs)
  moreover have "\<not> ok (src\<lparr>m_IsValue := False\<rparr>)"
    "StatusOr_dtor (src\<lparr>m_IsValue := False\<rparr>) = Inr (src\<lparr>m_IsValue := False\<rparr>, [])"
    "StatusOr_dtor \<lparr>m_Status = status src, m_IsValue = True, m_Storage = Some v\<rparr> =
       Inr (\<lparr>m_Status = status src, m_IsValue = False, m_Storage = None\<rparr>, [Destruct v])"
    "\<not> ok (src\<lparr>m_IsValue := False, m_Storage := Some (mf v)\<rparr>)"
    "StatusOr_dtor (src\<lparr>m_IsValue := False, m_Storage := Some (mf v)\<rparr>) =
       Inr (src\<lparr>m_IsValue := False, m_Storage := Some (mf v)\<rparr>, [])"
    by (simp_all add: op_defs)
  ultimately show ?thesis
    using v(1) assign onto_value onto_status by blast
qed

theorem moved_from_not_destroyed_witness:
  "reachable id id \<lparr>m_Status = Status_OK, m_IsValue = True, m_Storage = Some (42::int)\<rparr> \<and>
   ok \<lparr>m_Status = Status_OK, m_IsValue = True, m_Storage = Some (42::int)\<rparr> \<and>
   reachable id id \<lparr>m_Status = Status_ctor NOT_FOUND ''missing key'', m_IsValue = False,
                   m_Storage = None :: int option\<rparr> \<and>
   \<not> ok \<lparr>m_Status = Status_ctor NOT_FOUND ''missing key'', m_IsValue = False,
          m_Storage = None :: int option\<rparr> \<and>
   reachable id id \<lparr>m_Status = Status_OK, m_IsValue = True, m_Storage = Some (7::int)\<rparr> \<and>
   ok \<lparr>m_Status = Status_OK, m_IsValue = True, m_Storage = Some (7::int)\<rparr> \<and>
   StatusOr_move \<lparr>m_Status = Status_OK, m_IsValue = True, m_Storage = Some (42::int)\<rparr> =
     Inr (\<lparr>m_Status = Status_OK, m_IsValue = True, m_Storage = Some 42\<rparr>,
          \<lparr>m_Status = Status_OK, m_IsValue = False, m_Storage = Some 42\<rparr>,
          [Construct 42]) \<and>
   StatusOr_dtor \<lparr>m_Status = Status_OK, m_IsValue = False, m_Storage = Some (42::int)\<rparr> =
     Inr (\<lparr>m_Status = Status_OK, m_IsValue = False, m_Storage = Some 42\<rparr>, []) \<and>
   value_rvalue id \<lparr>m_Status = Status_OK, m_IsValue = True, m_Storage = Some (42::int)\<rparr> =
     Inr (42, \<lparr>m_Status = Status_OK, m_IsValue = False, m_Storage = Some 42\<rparr>) \<and>
   move_assign id id
     \<lparr>m_Status = Status_ctor NOT_FOUND ''missing key'', m_IsValue = False, m_Storage = None\<rparr>
     (Another \<lparr>m_Status = Status_OK, m_IsValue = True, m_Storage = Some (42::int)\<rparr>) =
     Inr (\<lparr>m_Status = Status_OK, m_IsValue = True, m_Storage = Some 42\<rparr>,
          Another \<lparr>m_Status = Status_OK, m_IsValue = False, m_Storage = Some 42\<rparr>,
          [Construct 42]) \<and>
   move_assign id id
     \<lparr>m_Status = Status_OK, m_IsValue = True, m_Storage = Some (7::int)\<rparr>
     (Another \<lparr>m_Status = Status_OK, m_IsValue = True, m_Storage = Some (42::int)\<rparr>) =
     Inr (\<lparr>m_Status = Status_OK, m_IsValue = True, m_Storage = Some 42\<rparr>,
          Another \<lparr>m_Status = Status_OK, m_IsValue = False, m_Storage = Some 42\<rparr>,
          [])"
proof -
  let ?V = "\<lparr>m_Status = Status_OK, m_IsValue = True, m_Storage = Some (42::int)\<rparr>"
  let ?W = "\<lparr>m_Status = Status_OK, m_IsValue = True, m_Storage = Some (7::int)\<rparr>"
  let ?E = "\<lparr>m_Status = Status_ctor NOT_FOUND ''missing key'', m_IsValue = False,
             m_Storage = None :: int option\<rparr>"
  have rv: "reachable id id ?V"
    by (rule reachable_value)
  have rw: "reachable id id ?W"
    by (rule reachable_value)
  have re: "reachable id id ?E"
    by (rule reachable_error) (rule not_found_not_ok)
  have k: "ok ?V" "ok ?W" "\<not> ok ?E"
    by (simp_all add: ok_def)
  from moved_from_not_destroyed [OF rv k(1) re] moved_from_not_destroyed [OF rv k(1) rw]
    rv rw re k
  show ?thesis
    by (auto simp: status_def Status_move_def Status_OK_def Status_default_def)
qed

text \<open>
  \<^verbatim>\<open>{ StatusOr<int> a(42); StatusOr<int> c(std::move(a)); }\<close>: two objects are
  constructed, one in each storage, and the two destructors run one destructor of
  \<^verbatim>\<open>T\<close>; the object of \<open>a\<close> is still in its storage afterwards, and an instance
  counter ends at one, not at zero.
\<close>

theorem moved_from_leak_counterexample:
  "StatusOr_value (42::int) =
     (\<lparr>m_Status = Status_OK, m_IsValue = True, m_Storage = Some 42\<rparr>, [Construct 42]) \<and>
   StatusOr_move \<lparr>m_Status = Status_OK, m_IsValue = True, m_Storage = Some (42::int)\<rparr> =
     Inr (\<lparr>m_Status = Status_OK, m_IsValue = True, m_Storage = Some 42\<rparr>,
          \<lparr>m_Status = Status_OK, m_IsValue = False, m_Storage = Some 42\<rparr>,
          [Construct 42]) \<and>
   StatusOr_dtor \<lparr>m_Status = Status_OK, m_IsValue = True, m_Storage = Some (42::int)\<rparr> =
     Inr (\<lparr>m_Status = Status_OK, m_IsValue = False, m_Storage = None\<rparr>, [Destruct 42]) \<and>
   StatusOr_dtor \<lparr>m_Status = Status_OK, m_IsValue = False, m_Storage = Some (42::int)\<rparr> =
     Inr (\<lparr>m_Status = Status_OK, m_IsValue = False, m_Storage = Some 42\<rparr>, []) \<and>
   live_instances
     (snd (StatusOr_value (42::int)) @
      snd (snd (projr (StatusOr_move
        \<lparr>m_Status = Status_OK, m_IsValue = True, m_Storage = Some (42::int)\<rparr>))) @
      snd (projr (StatusOr_dtor
        \<lparr>m_Status = Status_OK, m_IsValue = True, m_Storage = Some (42::int)\<rparr>)) @
      snd (projr (StatusOr_dtor
        \<lparr>m_Status = Status_OK, m_IsValue = False, m_Storage = Some (42::int)\<rparr>))) = 1"
  by (simp add: op_defs)

text \<open>
  C10. For every reachable container that holds a value: after the rvalue-qualified
  \<open>value\<close>, and after being the source of a move construction, \<open>ok\<close> is false while
  the stored status is OK.
\<close>

theorem moved_from_status_ok:
  assumes "reachable mf ms s" and "ok s"
  shows "\<exists>v. m_Storage s = Some v \<and>
     value_rvalue mf s = Inr (v, s\<lparr>m_IsValue := False, m_Storage := Some (mf v)\<rparr>) \<and>
     \<not> ok (s\<lparr>m_IsValue := False, m_Storage := Some (mf v)\<rparr>) \<and>
     Status_ok (status (s\<lparr>m_IsValue := False, m_Storage := Some (mf v)\<rparr>)) \<and>
     StatusOr_move s =
       Inr (\<lparr>m_Status = status s, m_IsValue = True, m_Storage = Some v\<rparr>,
            s\<lparr>m_IsValue := False\<rparr>, [Construct v]) \<and>
     \<not> ok (s\<lparr>m_IsValue := False\<rparr>) \<and>
     Status_ok (status (s\<lparr>m_IsValue := False\<rparr>))"
proof -
  from assms obtain v where "m_Storage s = Some v" "Status_ok (m_Status s)"
    by (rule reachable_holds)
  with assms(2) show ?thesis
    by (simp add: op_defs)
qed

theorem moved_from_status_ok_witness:
  "reachable id id \<lparr>m_Status = Status_OK, m_IsValue = True, m_Storage = Some (42::int)\<rparr> \<and>
   ok \<lparr>m_Status = Status_OK, m_IsValue = True, m_Storage = Some (42::int)\<rparr> \<and>
   value_rvalue id \<lparr>m_Status = Status_OK, m_IsValue = True, m_Storage = Some (42::int)\<rparr> =
     Inr (42, \<lparr>m_Status = Status_OK, m_IsValue = False, m_Storage = Some 42\<rparr>) \<and>
   \<not> ok \<lparr>m_Status = Status_OK, m_IsValue = False, m_Storage = Some (42::int)\<rparr> \<and>
   Status_ok (status \<lparr>m_Status = Status_OK, m_IsValue = False, m_Storage = Some (42::int)\<rparr>)"
proof -
  let ?V = "\<lparr>m_Status = Status_OK, m_IsValue = True, m_Storage = Some (42::int)\<rparr>"
  have rv: "reachable id id ?V"
    by (rule reachable_value)
  have k: "ok ?V"
    by (simp add: ok_def)
  from moved_from_status_ok [OF rv k] rv k show ?thesis
    by auto
qed

end
